theory Spec2Isabelle
  imports
    Main
    "HOL-Library.List_Lexorder"
    "HOL-Library.Char_ord"
    "HOL-Library.Product_Lexorder"
    "HOL-Library.Multiset"
    "HOL-Library.AList"
begin

section \<open>Data model\<close>

text \<open>
  The scripts exchange two JSON documents, \<^verbatim>\<open>countries.json\<close> and \<^verbatim>\<open>channels.json\<close>.
  A field that the source reads with \<^verbatim>\<open>.get(key, default)\<close> is optional here; a field it
  indexes with \<^verbatim>\<open>x[key]\<close> in both scripts (\<^verbatim>\<open>country["id"]\<close>) is mandatory. Where one
  script indexes a field that the other reads with \<^verbatim>\<open>.get\<close>, the field is optional and the
  indexing raises \<open>KeyError\<close>. Field values that are present are strings (identifiers, names,
  timestamps) or lists of entities, as the API and the scripts themselves write them; a
  JSON \<^verbatim>\<open>null\<close> in the place of a string is outside the model. Strings are lists of HOL
  characters, that is of the code points below 256 (Latin-1), compared lexicographically
  by code point as Python compares \<^verbatim>\<open>str\<close>; code points from 256 on are outside the model.
\<close>

datatype py_error = KeyError | TypeError | JSONDecodeError | OverflowError

record country =
  country_id :: string
  country_name :: "string option"
  country_display_name :: "string option"

record channel =
  channel_id :: "string option"
  channel_name :: "string option"
  channel_display_name :: "string option"

text \<open>A cached collection \<^verbatim>\<open>{"data": ..., "timestamp": ...}\<close>.\<close>

record 'a cached =
  data :: "'a option"
  timestamp :: "string option"

text \<open>
  The content of \<^verbatim>\<open>channels.json\<close>: a Python dict from country id to cached collection,
  in insertion order. \<^verbatim>\<open>k in d\<close> is \<open>map_of d k \<noteq> None\<close>, \<^verbatim>\<open>d[k] = v\<close> is
  \<open>AList.update k v d\<close> (replace in place, or append).
\<close>

type_synonym channels_data = "(string \<times> channel list cached) list"

text \<open>
  A file on disk: absent, holding a complete JSON document, or \<open>Partial\<close>: opened with
  mode \<^verbatim>\<open>'w'\<close> (which empties it) and not yet holding the complete dump. \<^verbatim>\<open>json.load\<close> of a
  \<open>Partial\<close> file raises.
\<close>

datatype 'a json_file = Missing | Partial | Holds 'a

datatype path = COUNTRIES_FILE | CHANNELS_FILE

datatype request = GetCountries | GetChannelsOfCountry string

text \<open>
  What \<^verbatim>\<open>requests.get\<close>, \<^verbatim>\<open>raise_for_status\<close> and \<^verbatim>\<open>response.json()\<close> yield together: the
  decoded payload, or a \<^verbatim>\<open>requests.RequestException\<close> \<open>e\<close>, carried as \<^verbatim>\<open>str(e)\<close>.
\<close>

datatype 'a response = Ok 'a | RequestException string

text \<open>
  A \<^verbatim>\<open>datetime\<close>: naive (microseconds on the proleptic calendar), or timezone-aware
  (microseconds and UTC offset). \<^verbatim>\<open>datetime.utcnow()\<close> is naive.
\<close>

datatype datetime = Naive int | Aware int int

text \<open>
  The collaborators outside the repository: the standard library's
  \<^verbatim>\<open>datetime.fromisoformat\<close> (\<open>None\<close> is its \<^verbatim>\<open>ValueError\<close>) and \<^verbatim>\<open>datetime.isoformat\<close>, the
  clock and the remote API. The clock and the API are read at the number of requests the
  process has made so far.
\<close>

record env =
  fromisoformat :: "string \<Rightarrow> datetime option"
  isoformat :: "int \<Rightarrow> string"
  utcnow :: "nat \<Rightarrow> int"
  api_countries :: "nat \<Rightarrow> country list response"
  api_channels :: "nat \<Rightarrow> string \<Rightarrow> channel list response"

text \<open>
  The state the fetcher acts on: the two cache files, the requests sent and the files
  opened for writing, both oldest first.
\<close>

record world =
  countries_file :: "country list cached json_file"
  channels_file :: "channels_data json_file"
  requests :: "request list"
  writes :: "path list"

section \<open>Strings\<close>

text \<open>
  \<^verbatim>\<open>str.lower\<close> on the code points below 256: the letters \<^verbatim>\<open>A\<close> to \<^verbatim>\<open>Z\<close> (65 to 90) and the
  capital letters of Latin-1 (192 to 222, without the multiplication sign 215) move up
  by 32; every other code point is its own lower case.
\<close>

definition lower_char :: "char \<Rightarrow> char" where
  "lower_char c =
     (let n = of_char c :: nat in
      if 65 \<le> n \<and> n \<le> 90 \<or> 192 \<le> n \<and> n \<le> 222 \<and> n \<noteq> 215
      then char_of (n + 32) else c)"

definition lower :: "string \<Rightarrow> string" where
  "lower s = map lower_char s"

text \<open>\<^verbatim>\<open>needle in haystack\<close> on strings.\<close>

fun contains :: "string \<Rightarrow> string \<Rightarrow> bool" where
  "contains [] needle = (needle = [])"
| "contains (c # cs) needle =
     (take (length needle) (c # cs) = needle \<or> contains cs needle)"

text \<open>\<^verbatim>\<open>d.get(key, default)\<close> on an optional field.\<close>

definition get_default :: "'a option \<Rightarrow> 'a \<Rightarrow> 'a" where
  "get_default v d = (case v of None \<Rightarrow> d | Some x \<Rightarrow> x)"

section \<open>generate-channels.py\<close>

definition COUNTRIES_MAX_AGE_DAYS :: int where
  "COUNTRIES_MAX_AGE_DAYS = 7"

text \<open>
  \<^verbatim>\<open>timedelta(days=n)\<close> in microseconds; the constructor raises \<^verbatim>\<open>OverflowError\<close> when
  the magnitude of \<open>n\<close> exceeds 999999999.
\<close>

definition timedelta_days :: "int \<Rightarrow> int" where
  "timedelta_days n = n * 86400000000"

definition now :: "env \<Rightarrow> world \<Rightarrow> int" where
  "now E w = utcnow E (length (requests w))"

definition get_utc_timestamp :: "env \<Rightarrow> world \<Rightarrow> string" where
  "get_utc_timestamp E w = isoformat E (now E w) @ ''Z''"

text \<open>
  \<^verbatim>\<open>is_data_stale\<close>. The argument is a string, so \<^verbatim>\<open>.replace\<close> does not raise the
  \<^verbatim>\<open>AttributeError\<close> the handler also catches. The three statements of the \<^verbatim>\<open>try\<close> block
  run in order: a string that \<^verbatim>\<open>fromisoformat\<close> rejects raises \<^verbatim>\<open>ValueError\<close>, which the
  handler turns into \<^verbatim>\<open>True\<close>; subtracting an aware \<^verbatim>\<open>datetime\<close> from the naive \<^verbatim>\<open>utcnow()\<close>
  raises \<^verbatim>\<open>TypeError\<close>, and \<^verbatim>\<open>timedelta\<close> may raise \<^verbatim>\<open>OverflowError\<close>, neither of which the
  handler catches. \<open>remove_Z\<close> is \<^verbatim>\<open>.replace("Z", "")\<close>.
\<close>

definition remove_Z :: "string \<Rightarrow> string" where
  "remove_Z s = filter (\<lambda>c. c \<noteq> CHR ''Z'') s"

definition is_data_stale :: "env \<Rightarrow> world \<Rightarrow> string \<Rightarrow> int \<Rightarrow> py_error + bool" where
  "is_data_stale E w timestamp_str max_age_days =
     (case fromisoformat E (remove_Z timestamp_str) of
        None \<Rightarrow> Inr True
      | Some (Naive t) \<Rightarrow>
          if \<bar>max_age_days\<bar> > 999999999 then Inl OverflowError
          else Inr (now E w - t > timedelta_days max_age_days)
      | Some (Aware t off) \<Rightarrow> Inl TypeError)"

text \<open>
  Writing a JSON document: \<^verbatim>\<open>open(path, 'w')\<close> empties the file, \<^verbatim>\<open>json.dump\<close> then fills
  it.
\<close>

fun open_w :: "path \<Rightarrow> world \<Rightarrow> world" where
  "open_w COUNTRIES_FILE w = w\<lparr>countries_file := Partial, writes := writes w @ [COUNTRIES_FILE]\<rparr>"
| "open_w CHANNELS_FILE w = w\<lparr>channels_file := Partial, writes := writes w @ [CHANNELS_FILE]\<rparr>"

definition dump_countries :: "country list cached \<Rightarrow> world \<Rightarrow> world" where
  "dump_countries d w = w\<lparr>countries_file := Holds d\<rparr>"

definition dump_channels :: "channels_data \<Rightarrow> world \<Rightarrow> world" where
  "dump_channels d w = w\<lparr>channels_file := Holds d\<rparr>"

definition send :: "request \<Rightarrow> world \<Rightarrow> world" where
  "send r w = w\<lparr>requests := requests w @ [r]\<rparr>"

definition fetch_countries :: "env \<Rightarrow> world \<Rightarrow> country list option \<times> world" where
  "fetch_countries E w =
     (let w1 = send GetCountries w in
      case api_countries E (length (requests w)) of
        Ok countries \<Rightarrow>
          (let d = \<lparr>data = Some countries, timestamp = Some (get_utc_timestamp E w1)\<rparr>
           in (Some countries, dump_countries d (open_w COUNTRIES_FILE w1)))
      | RequestException e \<Rightarrow> (None, w1))"

definition load_countries :: "env \<Rightarrow> world \<Rightarrow> (py_error + country list option) \<times> world" where
  "load_countries E w =
     (case countries_file w of
        Missing \<Rightarrow> (case fetch_countries E w of (r, w') \<Rightarrow> (Inr r, w'))
      | Partial \<Rightarrow> (Inl JSONDecodeError, w)
      | Holds d \<Rightarrow>
          (case is_data_stale E w (get_default (timestamp d) '''') COUNTRIES_MAX_AGE_DAYS of
             Inl e \<Rightarrow> (Inl e, w)
           | Inr stale \<Rightarrow>
               if \<not> stale then
                 (case data d of
                    None \<Rightarrow> (Inl KeyError, w)
                  | Some cs \<Rightarrow> (Inr (Some cs), w))
               else (case fetch_countries E w of (r, w') \<Rightarrow> (Inr r, w'))))"

definition load_channels_data :: "world \<Rightarrow> py_error + channels_data" where
  "load_channels_data w =
     (case channels_file w of
        Missing \<Rightarrow> Inr []
      | Partial \<Rightarrow> Inl JSONDecodeError
      | Holds d \<Rightarrow> Inr d)"

text \<open>
  \<^verbatim>\<open>fetch_channels_for_country\<close> returns \<^verbatim>\<open>True\<close>, \<^verbatim>\<open>False\<close> or \<^verbatim>\<open>None\<close>, and updates the
  dict it is given in place: the dict is passed in and returned. \<open>cid\<close> and \<open>cname\<close> are
  the source's \<^verbatim>\<open>country_id\<close> and \<^verbatim>\<open>country_name\<close>, which name record fields here.
\<close>

definition fetch_channels_for_country ::
  "env \<Rightarrow> string \<Rightarrow> string \<Rightarrow> channels_data \<Rightarrow> world \<Rightarrow> bool option \<times> channels_data \<times> world" where
  "fetch_channels_for_country E cid cname all_channels_data w =
     (let w1 = send (GetChannelsOfCountry cid) w in
      case api_channels E (length (requests w)) cid of
        Ok channels \<Rightarrow>
          (let d = AList.update cid
                     \<lparr>data = Some channels, timestamp = Some (get_utc_timestamp E w1)\<rparr>
                     all_channels_data
           in (Some True, d, dump_channels d (open_w CHANNELS_FILE w1)))
      | RequestException e \<Rightarrow>
          if contains e ''429'' \<or> contains (lower e) ''rate limit''
          then (Some False, all_channels_data, w1)
          else (None, all_channels_data, w1))"

text \<open>
  The state left behind when the process is stopped inside the \<^verbatim>\<open>with open(...)\<close> block of
  a successful \<^verbatim>\<open>fetch_channels_for_country\<close>, after the file was opened and before the dump
  is complete.
\<close>

definition fetch_channels_for_country_interrupted ::
  "env \<Rightarrow> string \<Rightarrow> string \<Rightarrow> channels_data \<Rightarrow> world \<Rightarrow> world" where
  "fetch_channels_for_country_interrupted E cid cname all_channels_data w =
     (let w1 = send (GetChannelsOfCountry cid) w in
      case api_channels E (length (requests w)) cid of
        Ok channels \<Rightarrow> open_w CHANNELS_FILE w1
      | RequestException e \<Rightarrow> w1)"

text \<open>The country ids a later run can read back from \<^verbatim>\<open>channels.json\<close>.\<close>

definition committed_keys :: "world \<Rightarrow> string set" where
  "committed_keys w =
     (case load_channels_data w of Inl e \<Rightarrow> {} | Inr d \<Rightarrow> fst ` set d)"

text \<open>The entries of \<^verbatim>\<open>countries_to_fetch\<close>: country id, name, timestamp or \<^verbatim>\<open>None\<close>.\<close>

type_synonym fetch_item = "string \<times> string \<times> string option"

fun categorize :: "channels_data \<Rightarrow> country list \<Rightarrow> fetch_item list \<Rightarrow> py_error + fetch_item list" where
  "categorize channels_data [] countries_to_fetch = Inr countries_to_fetch"
| "categorize channels_data (c # cs) countries_to_fetch =
     (case country_name c of
        None \<Rightarrow> Inl KeyError
      | Some cname \<Rightarrow>
          (case map_of channels_data (country_id c) of
             None \<Rightarrow>
               categorize channels_data cs (countries_to_fetch @ [(country_id c, cname, None)])
           | Some entry \<Rightarrow>
               categorize channels_data cs
                 (countries_to_fetch @
                    [(country_id c, cname, Some (get_default (timestamp entry) ''''))])))"

text \<open>The sort key \<^verbatim>\<open>lambda x: (x[2] is not None, x[2] or "")\<close>.\<close>

definition sort_item :: "fetch_item \<Rightarrow> bool \<times> string" where
  "sort_item x =
     (case x of (cid, cname, ts) \<Rightarrow>
        (ts \<noteq> None, case ts of None \<Rightarrow> '''' | Some t \<Rightarrow> if t = '''' then '''' else t))"

text \<open>
  \<^verbatim>\<open>list.sort\<close> is stable, as \<open>sort_key\<close> is. The loop stops at \<^verbatim>\<open>result is False\<close>; the pause
  between requests is not modelled.
\<close>

definition fetch_order :: "fetch_item list \<Rightarrow> fetch_item list" where
  "fetch_order countries_to_fetch = sort_key sort_item countries_to_fetch"

fun fetch_loop :: "env \<Rightarrow> fetch_item list \<Rightarrow> channels_data \<Rightarrow> world \<Rightarrow> channels_data \<times> world" where
  "fetch_loop E [] channels_data w = (channels_data, w)"
| "fetch_loop E (x # xs) channels_data w =
     (case x of (cid, cname, ts) \<Rightarrow>
        (case fetch_channels_for_country E cid cname channels_data w of
           (result, channels_data', w') \<Rightarrow>
             if result = Some False then (channels_data', w')
             else fetch_loop E xs channels_data' w'))"

definition main :: "env \<Rightarrow> world \<Rightarrow> (py_error + unit) \<times> world" where
  "main E w =
     (case load_countries E w of
        (Inl e, w1) \<Rightarrow> (Inl e, w1)
      | (Inr countries, w1) \<Rightarrow>
          if countries = None \<or> countries = Some [] then (Inr (), w1)
          else
            (case load_channels_data w1 of
               Inl e \<Rightarrow> (Inl e, w1)
             | Inr channels_data \<Rightarrow>
                 (case categorize channels_data (the countries) [] of
                    Inl e \<Rightarrow> (Inl e, w1)
                  | Inr countries_to_fetch \<Rightarrow>
                      (Inr (), snd (fetch_loop E (fetch_order countries_to_fetch) channels_data w1)))))"

section \<open>generate-options.py\<close>

text \<open>
  The transformer has its own \<^verbatim>\<open>load_countries\<close>, which only reads the file; it is named
  \<open>load_countries_options\<close> here. Both loaders return \<^verbatim>\<open>None\<close> when the file is absent.
\<close>

definition load_countries_options ::
  "country list cached json_file \<Rightarrow> py_error + country list option" where
  "load_countries_options f =
     (case f of
        Missing \<Rightarrow> Inr None
      | Partial \<Rightarrow> Inl JSONDecodeError
      | Holds d \<Rightarrow> Inr (Some (get_default (data d) [])))"

definition load_channels :: "channels_data json_file \<Rightarrow> py_error + channels_data option" where
  "load_channels f =
     (case f of
        Missing \<Rightarrow> Inr None
      | Partial \<Rightarrow> Inl JSONDecodeError
      | Holds d \<Rightarrow> Inr (Some d))"

text \<open>\<^verbatim>\<open>{country["id"]: country for country in countries}\<close>: a later duplicate wins.\<close>

definition country_map_of :: "country list \<Rightarrow> (string \<rightharpoonup> country)" where
  "country_map_of countries = fold (\<lambda>c m. m(country_id c \<mapsto> c)) countries Map.empty"

text \<open>
  An option \<^verbatim>\<open>{option_key: value}\<close> is the pair of its key and value. The state of the
  building loops: the options so far, their count, and the warning lines printed (the other
  progress lines are not modelled).
\<close>

type_synonym option_entry = "string \<times> string"

record options_state =
  channel_options :: "option_entry list"
  total_channels :: nat
  stdout :: "string list"

definition display_name_of_country :: "country \<Rightarrow> string" where
  "display_name_of_country c =
     get_default (country_display_name c) (get_default (country_name c) ''Unknown'')"

definition display_name_of_channel :: "channel \<Rightarrow> string" where
  "display_name_of_channel ch =
     get_default (channel_display_name ch) (get_default (channel_name ch) ''Unknown'')"

text \<open>
  The inner loop \<^verbatim>\<open>for channel in channels\<close>, with \<open>cdn\<close> the source's
  \<^verbatim>\<open>country_display_name\<close>; \<^verbatim>\<open>if channel_id\<close> is false on \<^verbatim>\<open>None\<close> and on \<^verbatim>\<open>""\<close>.
\<close>

fun channels_loop :: "string \<Rightarrow> channel list \<Rightarrow> options_state \<Rightarrow> options_state" where
  "channels_loop cdn [] s = s"
| "channels_loop cdn (ch # chs) s =
     (case channel_id ch of
        None \<Rightarrow> channels_loop cdn chs s
      | Some cid \<Rightarrow>
          if cid = '''' then channels_loop cdn chs s
          else
            channels_loop cdn chs
              (s\<lparr>channel_options := channel_options s @
                    [(cdn @ '' - '' @ display_name_of_channel ch,
                      cid @ ''|'' @ display_name_of_channel ch)],
                 total_channels := total_channels s + 1\<rparr>))"

text \<open>The outer loop \<^verbatim>\<open>for country_id, country_channels in channels_data.items()\<close>.\<close>

fun countries_loop :: "(string \<rightharpoonup> country) \<Rightarrow> channels_data \<Rightarrow> options_state \<Rightarrow> options_state" where
  "countries_loop country_map [] s = s"
| "countries_loop country_map (item # rest) s =
     (case item of (cid, country_channels) \<Rightarrow>
        (case country_map cid of
           None \<Rightarrow>
             countries_loop country_map rest
               (s\<lparr>stdout := stdout s @
                     [''Warning: Country ID '' @ cid @ '' not found in countries data'']\<rparr>)
         | Some country \<Rightarrow>
             countries_loop country_map rest
               (channels_loop (display_name_of_country country)
                  (get_default (data country_channels) []) s)))"

text \<open>
  \<^verbatim>\<open>create_options_yml\<close>, up to the sorted option list that becomes the \<^verbatim>\<open>options\<close> of the
  channels field; the YAML document around it is fixed text. \<open>Inr None\<close> is the early
  \<^verbatim>\<open>return\<close> on missing or empty data.
\<close>

definition create_options_yml ::
  "country list cached json_file \<Rightarrow> channels_data json_file \<Rightarrow> py_error + options_state option" where
  "create_options_yml cf chf =
     (case load_countries_options cf of
        Inl e \<Rightarrow> Inl e
      | Inr countries \<Rightarrow>
          (case load_channels chf of
             Inl e \<Rightarrow> Inl e
           | Inr channels_data \<Rightarrow>
               if countries = None \<or> countries = Some [] \<or>
                  channels_data = None \<or> channels_data = Some []
               then Inr None
               else
                 (let s = countries_loop (country_map_of (the countries)) (the channels_data)
                            \<lparr>channel_options = [], total_channels = 0, stdout = []\<rparr>
                  in Inr (Some (s\<lparr>channel_options :=
                                     sort_key (\<lambda>x. lower (fst x)) (channel_options s)\<rparr>)))))"

section \<open>Auxiliary definitions for the statements\<close>

definition item_id :: "fetch_item \<Rightarrow> string" where
  "item_id x = fst x"

definition item_timestamp :: "fetch_item \<Rightarrow> string option" where
  "item_timestamp x = snd (snd x)"

text \<open>The tuple the categorising loop appends for a country that has a name.\<close>

definition to_item :: "channels_data \<Rightarrow> country \<Rightarrow> fetch_item" where
  "to_item cd c =
     (country_id c, the (country_name c),
      case map_of cd (country_id c) of
        None \<Rightarrow> None
      | Some entry \<Rightarrow> Some (get_default (timestamp entry) ''''))"

text \<open>The test the \<^verbatim>\<open>except\<close> branch of \<^verbatim>\<open>fetch_channels_for_country\<close> makes on \<^verbatim>\<open>str(e)\<close>.\<close>

definition rate_limit_message :: "string \<Rightarrow> bool" where
  "rate_limit_message e = (contains e ''429'' \<or> contains (lower e) ''rate limit'')"

text \<open>
  The options as a comprehension over the keyed cache, for the statements about
  \<^verbatim>\<open>create_options_yml\<close>: a channel has an identifier when \<^verbatim>\<open>if channel_id\<close> holds; a pair
  of a known country and such a channel gives one option; an item of the keyed cache
  gives the options of its channels, or none when its country is unknown.
\<close>

definition has_id :: "channel \<Rightarrow> bool" where
  "has_id ch = (channel_id ch \<noteq> None \<and> channel_id ch \<noteq> Some '''')"

definition option_of :: "country \<Rightarrow> channel \<Rightarrow> option_entry" where
  "option_of c ch =
     (display_name_of_country c @ '' - '' @ display_name_of_channel ch,
      the (channel_id ch) @ ''|'' @ display_name_of_channel ch)"

definition options_of_item ::
  "(string \<rightharpoonup> country) \<Rightarrow> string \<times> channel list cached \<Rightarrow> option_entry list" where
  "options_of_item m item =
     (case m (fst item) of
        None \<Rightarrow> []
      | Some c \<Rightarrow> map (option_of c) (filter has_id (get_default (data (snd item)) [])))"

definition expected_options :: "(string \<rightharpoonup> country) \<Rightarrow> channels_data \<Rightarrow> option_entry list" where
  "expected_options m cd = concat (map (options_of_item m) cd)"

definition warning :: "string \<Rightarrow> string" where
  "warning cid = ''Warning: Country ID '' @ cid @ '' not found in countries data''"


definition sort_label :: "option_entry \<Rightarrow> string" where
  "sort_label x = lower (fst x)"

section \<open>Example inputs\<close>

definition country_A :: country where
  "country_A = \<lparr>country_id = ''A'', country_name = Some ''Austria'', country_display_name = None\<rparr>"

definition country_B :: country where
  "country_B = \<lparr>country_id = ''B'', country_name = Some ''Belgium'',
                 country_display_name = Some ''Belgium (BE)''\<rparr>"

definition country_C :: country where
  "country_C = \<lparr>country_id = ''C'', country_name = Some ''Chile'', country_display_name = None\<rparr>"

definition country_D :: country where
  "country_D = \<lparr>country_id = ''D'', country_name = Some ''Denmark'', country_display_name = None\<rparr>"

definition entry_B :: "channel list cached" where
  "entry_B = \<lparr>data = Some [], timestamp = Some ''2024-02-01T00:00:00Z''\<rparr>"

definition entry_C :: "channel list cached" where
  "entry_C = \<lparr>data = Some [], timestamp = Some ''2024-01-01T00:00:00Z''\<rparr>"

definition entry_D :: "channel list cached" where
  "entry_D = \<lparr>data = Some [], timestamp = None\<rparr>"

text \<open>
  A parser that agrees with \<^verbatim>\<open>datetime.fromisoformat\<close> on the strings the examples use:
  midnight of 2024-01-01 without and with a UTC offset, three quarters of a second after
  that midnight, and strings that are no dates. Day 738885 after 0001-01-01 is 2024-01-01.
\<close>

definition sample_fromisoformat :: "string \<Rightarrow> datetime option" where
  "sample_fromisoformat s =
     (if s = ''2024-01-01T00:00:00'' then Some (Naive (738885 * 86400000000))
      else if s = ''2024-01-01T00:00:00.750000''
        then Some (Naive (738885 * 86400000000 + 750000))
      else if s = ''2024-01-01T00:00:00+00:00'' then Some (Aware (738885 * 86400000000) 0)
      else None)"

text \<open>
  Readings of the clock: 2024-01-01 00:00:00, 2024-01-05 00:00:00 and 2024-01-09 00:00:00.
  \<open>sample_isoformat\<close> agrees with \<^verbatim>\<open>datetime.isoformat\<close> at the readings the examples use;
  \<^verbatim>\<open>isoformat\<close> writes the fraction of the second only when it is not zero.
\<close>

definition jan_1 :: int where
  "jan_1 = 738885 * 86400000000"

definition jan_5 :: int where
  "jan_5 = 738889 * 86400000000"

definition jan_9 :: int where
  "jan_9 = 738893 * 86400000000"

definition sample_isoformat :: "int \<Rightarrow> string" where
  "sample_isoformat t =
     (if t = jan_5 then ''2024-01-05T00:00:00''
      else if t = jan_9 then ''2024-01-09T00:00:00''
      else if t = jan_1 + 750000 then ''2024-01-01T00:00:00.750000''
      else ''2024-01-01T00:00:00'')"

definition sample_env ::
  "int \<Rightarrow> (nat \<Rightarrow> country list response) \<Rightarrow> (nat \<Rightarrow> string \<Rightarrow> channel list response) \<Rightarrow> env" where
  "sample_env t api_c api_ch =
     \<lparr>fromisoformat = sample_fromisoformat, isoformat = sample_isoformat,
      utcnow = (\<lambda>n. t), api_countries = api_c, api_channels = api_ch\<rparr>"

definition countries_up :: "nat \<Rightarrow> country list response" where
  "countries_up n = Ok [country_A, country_B]"

definition countries_down :: "nat \<Rightarrow> country list response" where
  "countries_down n = RequestException ''503 Server Error: Service Unavailable''"

definition channels_down :: "nat \<Rightarrow> string \<Rightarrow> channel list response" where
  "channels_down n cid = RequestException ''503 Server Error: Service Unavailable''"

definition sample_world :: "string option \<Rightarrow> world" where
  "sample_world ts =
     \<lparr>countries_file = Holds \<lparr>data = Some [country_C], timestamp = ts\<rparr>,
      channels_file = Missing, requests = [], writes = []\<rparr>"



text \<open>An API whose first answer is a channel list and whose second is a rate-limit error.\<close>

definition channel_news :: channel where
  "channel_news = \<lparr>channel_id = Some ''c1'', channel_name = Some ''News'',
                    channel_display_name = Some ''News''\<rparr>"

definition channels_then_429 :: "nat \<Rightarrow> string \<Rightarrow> channel list response" where
  "channels_then_429 n cid =
     (if n = 0 then Ok [channel_news]
      else RequestException ''429 Client Error: Too Many Requests'')"

text \<open>An API whose first answer is a server error and whose later answers are channel lists.\<close>

definition channels_503_then_up :: "nat \<Rightarrow> string \<Rightarrow> channel list response" where
  "channels_503_then_up n cid =
     (if n = 0 then RequestException ''503 Server Error: Service Unavailable''
      else Ok [channel_news])"

definition channels_up :: "nat \<Rightarrow> string \<Rightarrow> channel list response" where
  "channels_up n cid = Ok [channel_news]"

text \<open>
  A run whose first answer arrives at 2024-01-01 00:00:00 sharp and whose second arrives
  three quarters of a second later, after the pause of half a second.
\<close>

definition same_second_env :: env where
  "same_second_env =
     \<lparr>fromisoformat = sample_fromisoformat, isoformat = sample_isoformat,
      utcnow = (\<lambda>n. if n \<le> 1 then jan_1 else jan_1 + 750000),
      api_countries = countries_up, api_channels = channels_up\<rparr>"

text \<open>A world whose \<^verbatim>\<open>channels.json\<close> holds the given mapping.\<close>

definition world_with_channels :: "channels_data \<Rightarrow> world" where
  "world_with_channels cd =
     \<lparr>countries_file = Missing, channels_file = Holds cd, requests = [], writes = []\<rparr>"


definition channel_sports :: channel where
  "channel_sports = \<lparr>channel_id = Some ''c3'', channel_name = Some ''Sports'',
                      channel_display_name = None\<rparr>"



definition channel_without_id :: channel where
  "channel_without_id = \<lparr>channel_id = None, channel_name = Some ''Radio'',
                          channel_display_name = None\<rparr>"



definition countries_doc :: "country list \<Rightarrow> country list cached json_file" where
  "countries_doc cs = Holds \<lparr>data = Some cs, timestamp = Some ''2024-01-01T00:00:00Z''\<rparr>"

definition entry_of :: "channel list \<Rightarrow> channel list cached" where
  "entry_of chs = \<lparr>data = Some chs, timestamp = Some ''2024-01-01T00:00:00Z''\<rparr>"

section \<open>The fetch order\<close>

lemma categorize_closed:
  "categorize cd cs acc =
     (if \<forall>c\<in>set cs. country_name c \<noteq> None then Inr (acc @ map (to_item cd) cs)
      else Inl KeyError)"
  by (induction cs arbitrary: acc) (auto simp: to_item_def split: option.splits)

lemma categorize_items:
  assumes "categorize cd cs [] = Inr items"
  shows "items = map (to_item cd) cs"
  using assms by (simp add: categorize_closed split: if_splits)

lemma sorted_key_index:
  fixes f :: "'a \<Rightarrow> 'k::linorder"
  assumes "sorted (map f xs)" "i < length xs" "j < length xs" "f (xs ! i) < f (xs ! j)"
  shows "i < j"
proof (rule ccontr)
  assume "\<not> i < j"
  then have "j \<le> i" by simp
  with assms(1,2) have "map f xs ! j \<le> map f xs ! i"
    by (simp add: sorted_nth_mono del: nth_map)
  with assms show False by simp
qed

lemma fetch_order_sorted: "sorted (map sort_item (fetch_order items))"
  by (simp add: fetch_order_def)

lemma fetch_order_set: "set (fetch_order items) = set items"
  by (simp add: fetch_order_def)

lemma sort_item_timestamp:
  "sort_item x = (item_timestamp x \<noteq> None, get_default (item_timestamp x) '''')"
  by (cases x) (auto simp: sort_item_def item_timestamp_def get_default_def split: option.splits)

lemma to_item_id: "item_id (to_item cd c) = country_id c"
  by (simp add: to_item_def item_id_def)

lemma to_item_timestamp:
  "item_timestamp (to_item cd c) =
     (case map_of cd (country_id c) of
        None \<Rightarrow> None
      | Some entry \<Rightarrow> Some (get_default (timestamp entry) ''''))"
  by (simp add: to_item_def item_timestamp_def)

text \<open>
  Claim C3, at two cache entries written within one second. The first answer of a run
  arrives at 2024-01-01 00:00:00 sharp and the second three quarters of a second later, so
  that the run files \<open>B\<close> under \<^verbatim>\<open>2024-01-01T00:00:00Z\<close> and then \<open>C\<close> under
  \<^verbatim>\<open>2024-01-01T00:00:00.750000Z\<close>: the entry of \<open>B\<close> is the older one. Both countries have
  an entry, and the next run sorts their timestamps as strings, in which the full stop
  comes before \<open>Z\<close>; it fetches \<open>C\<close> before \<open>B\<close>, the newer entry first, while the
  comment above the sort reads \<^verbatim>\<open>then by oldest timestamp\<close>.
\<close>

theorem fetch_order_newer_entry_first_within_second:
  "fst (fetch_loop same_second_env [(''B'', ''Belgium'', None), (''C'', ''Chile'', None)] []
          (world_with_channels [])) =
     [(''B'', \<lparr>data = Some [channel_news], timestamp = Some ''2024-01-01T00:00:00Z''\<rparr>),
      (''C'', \<lparr>data = Some [channel_news],
               timestamp = Some ''2024-01-01T00:00:00.750000Z''\<rparr>)] \<and>
   fromisoformat same_second_env (remove_Z ''2024-01-01T00:00:00Z'') = Some (Naive jan_1) \<and>
   fromisoformat same_second_env (remove_Z ''2024-01-01T00:00:00.750000Z'') =
     Some (Naive (jan_1 + 750000)) \<and>
   categorize
     [(''B'', \<lparr>data = Some [channel_news], timestamp = Some ''2024-01-01T00:00:00Z''\<rparr>),
      (''C'', \<lparr>data = Some [channel_news],
               timestamp = Some ''2024-01-01T00:00:00.750000Z''\<rparr>)]
     [country_B, country_C] [] =
     Inr [(''B'', ''Belgium'', Some ''2024-01-01T00:00:00Z''),
          (''C'', ''Chile'', Some ''2024-01-01T00:00:00.750000Z'')] \<and>
   fetch_order [(''B'', ''Belgium'', Some ''2024-01-01T00:00:00Z''),
                (''C'', ''Chile'', Some ''2024-01-01T00:00:00.750000Z'')] =
     [(''C'', ''Chile'', Some ''2024-01-01T00:00:00.750000Z''),
      (''B'', ''Belgium'', Some ''2024-01-01T00:00:00Z'')]"
proof -
  have run: "fst (fetch_loop same_second_env
          [(''B'', ''Belgium'', None), (''C'', ''Chile'', None)] []
          (world_with_channels [])) =
     [(''B'', \<lparr>data = Some [channel_news], timestamp = Some ''2024-01-01T00:00:00Z''\<rparr>),
      (''C'', \<lparr>data = Some [channel_news],
               timestamp = Some ''2024-01-01T00:00:00.750000Z''\<rparr>)]"
    by (simp add: fetch_channels_for_country_def same_second_env_def channels_up_def
        world_with_channels_def send_def dump_channels_def get_utc_timestamp_def now_def
        sample_isoformat_def jan_1_def jan_5_def jan_9_def Let_def)
  have older: "fromisoformat same_second_env (remove_Z ''2024-01-01T00:00:00Z'') =
      Some (Naive jan_1)"
    by (simp add: same_second_env_def sample_fromisoformat_def remove_Z_def jan_1_def)
  have newer: "fromisoformat same_second_env (remove_Z ''2024-01-01T00:00:00.750000Z'') =
      Some (Naive (jan_1 + 750000))"
    by (simp add: same_second_env_def sample_fromisoformat_def remove_Z_def jan_1_def)
  have cat: "categorize
     [(''B'', \<lparr>data = Some [channel_news], timestamp = Some ''2024-01-01T00:00:00Z''\<rparr>),
      (''C'', \<lparr>data = Some [channel_news],
               timestamp = Some ''2024-01-01T00:00:00.750000Z''\<rparr>)]
     [country_B, country_C] [] =
     Inr [(''B'', ''Belgium'', Some ''2024-01-01T00:00:00Z''),
          (''C'', ''Chile'', Some ''2024-01-01T00:00:00.750000Z'')]"
    by (simp add: country_B_def country_C_def get_default_def)
  have ord: "fetch_order [(''B'', ''Belgium'', Some ''2024-01-01T00:00:00Z''),
                (''C'', ''Chile'', Some ''2024-01-01T00:00:00.750000Z'')] =
     [(''C'', ''Chile'', Some ''2024-01-01T00:00:00.750000Z''),
      (''B'', ''Belgium'', Some ''2024-01-01T00:00:00Z'')]"
    by (simp add: fetch_order_def sort_item_def)
  from run older newer cat ord show ?thesis by (intro conjI)
qed

text \<open>
  Claim C10. In the sorted fetch list, an item whose country has a cache entry with a
  missing or empty timestamp has the sort key \<open>(True, '''')\<close>; it comes after every item
  whose country has no cache entry and before every item whose entry has a non-empty
  timestamp.
\<close>

theorem empty_timestamp_between_missing_and_dated:
  assumes cat: "categorize cd cs [] = Inr items"
      and i: "i < length (fetch_order items)"
      and j: "j < length (fetch_order items)"
      and e: "map_of cd (item_id (fetch_order items ! i)) = Some e"
      and ts: "timestamp e = None \<or> timestamp e = Some ''''"
  shows "sort_item (fetch_order items ! i) = (True, '''') \<and>
         (map_of cd (item_id (fetch_order items ! j)) = None \<longrightarrow> j < i) \<and>
         (\<forall>e' t. map_of cd (item_id (fetch_order items ! j)) = Some e' \<and>
                 timestamp e' = Some t \<and> t \<noteq> '''' \<longrightarrow> i < j)"
proof -
  note items = categorize_items[OF cat]
  have mem: "\<And>k. k < length (fetch_order items) \<Longrightarrow> \<exists>c. fetch_order items ! k = to_item cd c"
  proof -
    fix k assume "k < length (fetch_order items)"
    then have "fetch_order items ! k \<in> set (fetch_order items)" by simp
    then show "\<exists>c. fetch_order items ! k = to_item cd c"
      by (auto simp: fetch_order_set items)
  qed
  from mem[OF i] obtain ci where ci: "fetch_order items ! i = to_item cd ci" by blast
  from mem[OF j] obtain cj where cj: "fetch_order items ! j = to_item cd cj" by blast
  have ki: "sort_item (fetch_order items ! i) = (True, '''')"
    using e ts by (auto simp: ci sort_item_timestamp to_item_id to_item_timestamp get_default_def)
  have A: "map_of cd (item_id (fetch_order items ! j)) = None \<longrightarrow> j < i"
  proof
    assume "map_of cd (item_id (fetch_order items ! j)) = None"
    then have "sort_item (fetch_order items ! j) = (False, '''')"
      by (simp add: cj sort_item_timestamp to_item_id to_item_timestamp get_default_def)
    with ki have "sort_item (fetch_order items ! j) < sort_item (fetch_order items ! i)"
      by (simp add: less_prod_def)
    then show "j < i"
      by (rule sorted_key_index[OF fetch_order_sorted j i])
  qed
  have B: "\<forall>e' t. map_of cd (item_id (fetch_order items ! j)) = Some e' \<and>
                 timestamp e' = Some t \<and> t \<noteq> '''' \<longrightarrow> i < j"
  proof (intro allI impI)
    fix e' t
    assume "map_of cd (item_id (fetch_order items ! j)) = Some e' \<and>
            timestamp e' = Some t \<and> t \<noteq> ''''"
    then have "sort_item (fetch_order items ! j) = (True, t)" "t \<noteq> ''''"
      by (simp_all add: cj sort_item_timestamp to_item_id to_item_timestamp get_default_def)
    with ki have "sort_item (fetch_order items ! i) < sort_item (fetch_order items ! j)"
      by (cases t) (simp_all add: less_prod_def)
    then show "i < j"
      by (rule sorted_key_index[OF fetch_order_sorted i j])
  qed
  from ki A B show ?thesis by blast
qed

theorem empty_timestamp_between_missing_and_dated_witness:
  "categorize [(''B'', entry_B), (''D'', entry_D)] [country_B, country_D, country_A] [] =
     Inr [(''B'', ''Belgium'', Some ''2024-02-01T00:00:00Z''),
          (''D'', ''Denmark'', Some ''''),
          (''A'', ''Austria'', None)] \<and>
   fetch_order [(''B'', ''Belgium'', Some ''2024-02-01T00:00:00Z''),
                (''D'', ''Denmark'', Some ''''),
                (''A'', ''Austria'', None)] =
     [(''A'', ''Austria'', None),
      (''D'', ''Denmark'', Some ''''),
      (''B'', ''Belgium'', Some ''2024-02-01T00:00:00Z'')] \<and>
   sort_item (fetch_order [(''B'', ''Belgium'', Some ''2024-02-01T00:00:00Z''),
                (''D'', ''Denmark'', Some ''''),
                (''A'', ''Austria'', None)] ! 1) = (True, '''')"
proof -
  let ?cd = "[(''B'', entry_B), (''D'', entry_D)]"
  let ?items = "[(''B'', ''Belgium'', Some ''2024-02-01T00:00:00Z''),
                 (''D'', ''Denmark'', Some ''''),
                 (''A'', ''Austria'', None)]"
  have cat: "categorize ?cd [country_B, country_D, country_A] [] = Inr ?items"
    by (simp add: country_A_def country_B_def country_D_def entry_B_def entry_D_def
        get_default_def)
  have ord: "fetch_order ?items =
     [(''A'', ''Austria'', None),
      (''D'', ''Denmark'', Some ''''),
      (''B'', ''Belgium'', Some ''2024-02-01T00:00:00Z'')]"
    by (simp add: fetch_order_def sort_item_def)
  have i: "1 < length (fetch_order ?items)" by (simp add: ord)
  have j: "0 < length (fetch_order ?items)" by (simp add: ord)
  have e: "map_of ?cd (item_id (fetch_order ?items ! 1)) = Some entry_D"
    by (simp add: ord item_id_def)
  have ts: "timestamp entry_D = None \<or> timestamp entry_D = Some ''''"
    by (simp add: entry_D_def)
  from empty_timestamp_between_missing_and_dated[OF cat i j e ts]
  have "sort_item (fetch_order ?items ! 1) = (True, '''')" by (rule conjunct1)
  with cat ord show ?thesis by (intro conjI)
qed

section \<open>The countries cache\<close>

lemma send_fields:
  "requests (send r w) = requests w @ [r]"
  "countries_file (send r w) = countries_file w"
  "channels_file (send r w) = channels_file w"
  "writes (send r w) = writes w"
  by (simp_all add: send_def)

lemma fetch_countries_failure:
  assumes "api_countries E (length (requests w)) = RequestException e"
  shows "fetch_countries E w = (None, send GetCountries w)"
  using assms by (simp add: fetch_countries_def)


text \<open>
  Claim C9. When the request for the countries fails with a \<^verbatim>\<open>RequestException\<close>
  (network error, or the HTTP error \<^verbatim>\<open>raise_for_status\<close> raises), \<^verbatim>\<open>fetch_countries\<close>
  returns \<^verbatim>\<open>None\<close>, opens no file for writing and leaves both cache files as they were;
  its only effect is the request sent.
\<close>

theorem fetch_countries_failure_keeps_cache:
  assumes "api_countries E (length (requests w)) = RequestException e"
  shows "fst (fetch_countries E w) = None \<and>
         countries_file (snd (fetch_countries E w)) = countries_file w \<and>
         channels_file (snd (fetch_countries E w)) = channels_file w \<and>
         writes (snd (fetch_countries E w)) = writes w \<and>
         requests (snd (fetch_countries E w)) = requests w @ [GetCountries]"
  by (simp add: fetch_countries_failure[OF assms] send_fields)

theorem fetch_countries_failure_keeps_cache_witness:
  "api_countries (sample_env jan_5 countries_down channels_down)
     (length (requests (sample_world (Some ''2024-01-01T00:00:00Z'')))) =
     RequestException ''503 Server Error: Service Unavailable'' \<and>
   fst (fetch_countries (sample_env jan_5 countries_down channels_down)
          (sample_world (Some ''2024-01-01T00:00:00Z''))) = None \<and>
   countries_file (snd (fetch_countries (sample_env jan_5 countries_down channels_down)
          (sample_world (Some ''2024-01-01T00:00:00Z'')))) =
     Holds \<lparr>data = Some [country_C], timestamp = Some ''2024-01-01T00:00:00Z''\<rparr> \<and>
   writes (snd (fetch_countries (sample_env jan_5 countries_down channels_down)
          (sample_world (Some ''2024-01-01T00:00:00Z'')))) = []"
proof -
  let ?E = "sample_env jan_5 countries_down channels_down"
  let ?w = "sample_world (Some ''2024-01-01T00:00:00Z'')"
  have h: "api_countries ?E (length (requests ?w)) =
      RequestException ''503 Server Error: Service Unavailable''"
    by (simp add: sample_env_def countries_down_def)
  note t = fetch_countries_failure_keeps_cache[OF h]
  have a: "fst (fetch_countries ?E ?w) = None" using t by (rule conjunct1)
  have b: "countries_file (snd (fetch_countries ?E ?w)) = countries_file ?w"
    using t by (elim conjE)
  have c: "writes (snd (fetch_countries ?E ?w)) = writes ?w"
    using t by (elim conjE)
  have b': "countries_file ?w =
      Holds \<lparr>data = Some [country_C], timestamp = Some ''2024-01-01T00:00:00Z''\<rparr>"
    by (simp add: sample_world_def)
  have c': "writes ?w = []" by (simp add: sample_world_def)
  from h a b c b' c' show ?thesis by (simp only: simp_thms)
qed




lemma is_data_stale_rejected:
  assumes "fromisoformat E (remove_Z ts) = None"
  shows "is_data_stale E w ts n = Inr True"
  using assms by (simp add: is_data_stale_def)

lemma is_data_stale_aware:
  assumes "fromisoformat E (remove_Z ts) = Some (Aware t off)"
  shows "is_data_stale E w ts n = Inl TypeError"
  using assms by (simp add: is_data_stale_def)

text \<open>
  Claim C5, at a timestamp with a UTC offset. On a string that \<^verbatim>\<open>datetime.fromisoformat\<close>
  rejects, such as \<^verbatim>\<open>yesterday\<close> or the empty string of a missing timestamp, the handler of
  \<^verbatim>\<open>is_data_stale\<close> returns \<^verbatim>\<open>True\<close>. The string \<^verbatim>\<open>2024-01-01T00:00:00+00:00\<close> parses to an
  aware \<^verbatim>\<open>datetime\<close>; \<^verbatim>\<open>datetime.utcnow() - timestamp\<close> then raises \<^verbatim>\<open>TypeError\<close>, which the
  handler does not catch: \<^verbatim>\<open>is_data_stale\<close> raises, and so does \<^verbatim>\<open>load_countries\<close> on a cache
  document with this timestamp, without refreshing it.
\<close>

theorem is_data_stale_raises_on_aware_timestamp:
  "is_data_stale (sample_env jan_5 countries_up channels_down) (sample_world None)
     ''yesterday'' COUNTRIES_MAX_AGE_DAYS = Inr True \<and>
   is_data_stale (sample_env jan_5 countries_up channels_down) (sample_world None)
     '''' COUNTRIES_MAX_AGE_DAYS = Inr True \<and>
   is_data_stale (sample_env jan_5 countries_up channels_down) (sample_world None)
     ''2024-01-01T00:00:00+00:00'' COUNTRIES_MAX_AGE_DAYS = Inl TypeError \<and>
   load_countries (sample_env jan_5 countries_up channels_down)
     (sample_world (Some ''2024-01-01T00:00:00+00:00'')) =
     (Inl TypeError, sample_world (Some ''2024-01-01T00:00:00+00:00''))"
proof -
  let ?E = "sample_env jan_5 countries_up channels_down"
  have p1: "fromisoformat ?E (remove_Z ''yesterday'') = None"
    by (simp add: sample_env_def sample_fromisoformat_def remove_Z_def)
  have p2: "fromisoformat ?E (remove_Z '''') = None"
    by (simp add: sample_env_def sample_fromisoformat_def remove_Z_def)
  have p3: "fromisoformat ?E (remove_Z ''2024-01-01T00:00:00+00:00'') =
      Some (Aware (738885 * 86400000000) 0)"
    by (simp add: sample_env_def sample_fromisoformat_def remove_Z_def)
  have a: "is_data_stale ?E (sample_world None) ''yesterday'' COUNTRIES_MAX_AGE_DAYS = Inr True"
    by (rule is_data_stale_rejected[OF p1])
  have b: "is_data_stale ?E (sample_world None) '''' COUNTRIES_MAX_AGE_DAYS = Inr True"
    by (rule is_data_stale_rejected[OF p2])
  have c: "is_data_stale ?E (sample_world None) ''2024-01-01T00:00:00+00:00''
      COUNTRIES_MAX_AGE_DAYS = Inl TypeError"
    by (rule is_data_stale_aware[OF p3])
  have d: "load_countries ?E (sample_world (Some ''2024-01-01T00:00:00+00:00'')) =
      (Inl TypeError, sample_world (Some ''2024-01-01T00:00:00+00:00''))"
    by (simp add: load_countries_def sample_world_def get_default_def
        is_data_stale_aware[OF p3])
  from a b c d show ?thesis by (intro conjI)
qed

section \<open>The fetch loop\<close>

lemma fetch_channels_rate_limited:
  assumes "api_channels E (length (requests w)) cid = RequestException e" "rate_limit_message e"
  shows "fetch_channels_for_country E cid cname cd w =
           (Some False, cd, send (GetChannelsOfCountry cid) w)"
  using assms by (simp add: fetch_channels_for_country_def rate_limit_message_def)

lemma fetch_channels_other_failure:
  assumes "api_channels E (length (requests w)) cid = RequestException e" "\<not> rate_limit_message e"
  shows "fetch_channels_for_country E cid cname cd w =
           (None, cd, send (GetChannelsOfCountry cid) w)"
  using assms by (simp add: fetch_channels_for_country_def rate_limit_message_def)

lemma fetch_channels_success:
  assumes "api_channels E (length (requests w)) cid = Ok chs"
  shows "fetch_channels_for_country E cid cname cd w =
           (Some True,
            AList.update cid
              \<lparr>data = Some chs,
               timestamp = Some (get_utc_timestamp E (send (GetChannelsOfCountry cid) w))\<rparr> cd,
            dump_channels
              (AList.update cid
                 \<lparr>data = Some chs,
                  timestamp = Some (get_utc_timestamp E (send (GetChannelsOfCountry cid) w))\<rparr> cd)
              (open_w CHANNELS_FILE (send (GetChannelsOfCountry cid) w)))"
  using assms by (simp add: fetch_channels_for_country_def Let_def)

text \<open>
  Claim C2. Let the loop be at the key \<open>cid\<close>, with \<open>rest\<close> still to come, in any state
  \<open>cd\<close>, \<open>w\<close> that the earlier keys have left. If the request fails with a message that
  the code takes for a rate limit, the loop ends there: the mapping in memory is unchanged,
  and the world differs from \<open>w\<close> only by the one request sent, so that no key of \<open>rest\<close>
  is requested and both files are as the earlier keys left them. If the request fails with
  any other message, the loop goes on with \<open>rest\<close> from the same mapping and the same
  files. In particular, when the first key succeeds and the second is rate limited, the
  file holds the first key's result, two requests were sent, and every other key has the
  entry it had.
\<close>

theorem fetch_loop_rate_limit_halts_other_failure_skips:
  "(api_channels E (length (requests w)) cid = RequestException e \<and> rate_limit_message e \<longrightarrow>
      fetch_loop E ((cid, cname, ts) # rest) cd w = (cd, send (GetChannelsOfCountry cid) w)) \<and>
   (api_channels E (length (requests w)) cid = RequestException e \<and> \<not> rate_limit_message e \<longrightarrow>
      fetch_loop E ((cid, cname, ts) # rest) cd w =
        fetch_loop E rest cd (send (GetChannelsOfCountry cid) w)) \<and>
   (requests (send (GetChannelsOfCountry cid) w) = requests w @ [GetChannelsOfCountry cid] \<and>
    channels_file (send (GetChannelsOfCountry cid) w) = channels_file w \<and>
    countries_file (send (GetChannelsOfCountry cid) w) = countries_file w \<and>
    writes (send (GetChannelsOfCountry cid) w) = writes w) \<and>
   (api_channels E (length (requests w)) cid = Ok chs \<and>
    api_channels E (Suc (length (requests w))) cid2 = RequestException e \<and>
    rate_limit_message e \<longrightarrow>
      (\<exists>d w'. fetch_loop E ((cid, cname, ts) # (cid2, cname2, ts2) # rest) cd w = (d, w') \<and>
         channels_file w' = Holds d \<and>
         map_of d cid =
           Some \<lparr>data = Some chs,
                 timestamp = Some (get_utc_timestamp E (send (GetChannelsOfCountry cid) w))\<rparr> \<and>
         (\<forall>k. k \<noteq> cid \<longrightarrow> map_of d k = map_of cd k) \<and>
         requests w' = requests w @ [GetChannelsOfCountry cid, GetChannelsOfCountry cid2] \<and>
         writes w' = writes w @ [CHANNELS_FILE]))"
proof (intro conjI impI)
  assume "api_channels E (length (requests w)) cid = RequestException e \<and> rate_limit_message e"
  then show "fetch_loop E ((cid, cname, ts) # rest) cd w =
      (cd, send (GetChannelsOfCountry cid) w)"
    by (simp add: fetch_channels_rate_limited)
next
  assume "api_channels E (length (requests w)) cid = RequestException e \<and>
      \<not> rate_limit_message e"
  then show "fetch_loop E ((cid, cname, ts) # rest) cd w =
      fetch_loop E rest cd (send (GetChannelsOfCountry cid) w)"
    by (simp add: fetch_channels_other_failure)
next
  assume h: "api_channels E (length (requests w)) cid = Ok chs \<and>
    api_channels E (Suc (length (requests w))) cid2 = RequestException e \<and>
    rate_limit_message e"
  let ?w1 = "send (GetChannelsOfCountry cid) w"
  let ?d = "AList.update cid
      \<lparr>data = Some chs, timestamp = Some (get_utc_timestamp E ?w1)\<rparr> cd"
  let ?w2 = "dump_channels ?d (open_w CHANNELS_FILE ?w1)"
  have len: "length (requests ?w2) = Suc (length (requests w))"
    by (simp add: dump_channels_def send_def)
  have first: "fetch_channels_for_country E cid cname cd w = (Some True, ?d, ?w2)"
    using h by (simp add: fetch_channels_success)
  have second: "fetch_channels_for_country E cid2 cname2 ?d ?w2 =
      (Some False, ?d, send (GetChannelsOfCountry cid2) ?w2)"
  proof (rule fetch_channels_rate_limited)
    from h show "api_channels E (length (requests ?w2)) cid2 = RequestException e"
      by (simp only: len)
    from h show "rate_limit_message e" by simp
  qed
  have loop: "fetch_loop E ((cid, cname, ts) # (cid2, cname2, ts2) # rest) cd w =
      (?d, send (GetChannelsOfCountry cid2) ?w2)"
    by (simp add: first second del: open_w.simps)
  have "channels_file (send (GetChannelsOfCountry cid2) ?w2) = Holds ?d \<and>
      map_of ?d cid = Some \<lparr>data = Some chs, timestamp = Some (get_utc_timestamp E ?w1)\<rparr> \<and>
      (\<forall>k. k \<noteq> cid \<longrightarrow> map_of ?d k = map_of cd k) \<and>
      requests (send (GetChannelsOfCountry cid2) ?w2) =
        requests w @ [GetChannelsOfCountry cid, GetChannelsOfCountry cid2] \<and>
      writes (send (GetChannelsOfCountry cid2) ?w2) = writes w @ [CHANNELS_FILE]"
    by (simp add: dump_channels_def send_def update_conv')
  with loop show "\<exists>d w'.
      fetch_loop E ((cid, cname, ts) # (cid2, cname2, ts2) # rest) cd w = (d, w') \<and>
      channels_file w' = Holds d \<and>
      map_of d cid =
        Some \<lparr>data = Some chs, timestamp = Some (get_utc_timestamp E ?w1)\<rparr> \<and>
      (\<forall>k. k \<noteq> cid \<longrightarrow> map_of d k = map_of cd k) \<and>
      requests w' = requests w @ [GetChannelsOfCountry cid, GetChannelsOfCountry cid2] \<and>
      writes w' = writes w @ [CHANNELS_FILE]"
    by blast
qed (simp_all add: send_fields)

theorem fetch_loop_rate_limit_halts_other_failure_skips_witness:
  "rate_limit_message ''429 Client Error: Too Many Requests'' \<and>
   \<not> rate_limit_message ''503 Server Error: Service Unavailable'' \<and>
   fetch_loop (sample_env jan_5 countries_up channels_then_429)
     [(''C'', ''Chile'', Some ''2024-01-01T00:00:00Z''),
      (''B'', ''Belgium'', Some ''2024-02-01T00:00:00Z'')]
     [(''B'', entry_B), (''C'', entry_C)]
     (send (GetChannelsOfCountry ''A'') (world_with_channels [(''B'', entry_B), (''C'', entry_C)])) =
     ([(''B'', entry_B), (''C'', entry_C)],
      send (GetChannelsOfCountry ''C'')
        (send (GetChannelsOfCountry ''A'')
           (world_with_channels [(''B'', entry_B), (''C'', entry_C)]))) \<and>
   fetch_loop (sample_env jan_5 countries_up channels_503_then_up) [(''A'', ''Austria'', None)]
     [(''B'', entry_B)] (world_with_channels [(''B'', entry_B)]) =
     fetch_loop (sample_env jan_5 countries_up channels_503_then_up) []
       [(''B'', entry_B)]
       (send (GetChannelsOfCountry ''A'') (world_with_channels [(''B'', entry_B)]))"
proof -
  let ?E = "sample_env jan_5 countries_up channels_then_429"
  let ?F = "sample_env jan_5 countries_up channels_503_then_up"
  let ?cd = "[(''B'', entry_B), (''C'', entry_C)]"
  let ?w = "send (GetChannelsOfCountry ''A'') (world_with_channels ?cd)"
  let ?v = "world_with_channels [(''B'', entry_B)]"
  have r: "rate_limit_message ''429 Client Error: Too Many Requests''"
    by (simp add: rate_limit_message_def)
  have s: "\<not> rate_limit_message ''503 Server Error: Service Unavailable''"
    by (simp add: rate_limit_message_def lower_def lower_char_def)
  have a: "api_channels ?E (length (requests ?w)) ''C'' =
      RequestException ''429 Client Error: Too Many Requests''"
    by (simp add: sample_env_def channels_then_429_def send_def world_with_channels_def)
  have b: "api_channels ?F (length (requests ?v)) ''A'' =
      RequestException ''503 Server Error: Service Unavailable''"
    by (simp add: sample_env_def channels_503_then_up_def world_with_channels_def)
  note halt = fetch_loop_rate_limit_halts_other_failure_skips[THEN conjunct1, rule_format,
      OF conjI, OF a r]
  note skip = fetch_loop_rate_limit_halts_other_failure_skips[THEN conjunct2, THEN conjunct1,
      rule_format, OF conjI, OF b s]
  from r s halt skip show ?thesis by (intro conjI)
qed

section \<open>Writing the keyed cache\<close>

text \<open>
  Claim C4, as the code has it. A successful \<^verbatim>\<open>fetch_channels_for_country\<close> writes the
  whole mapping back: when the write is complete, \<^verbatim>\<open>channels.json\<close> holds the mapping in
  memory, with the new entry for the fetched key and every other key's entry as before.
  The file is opened with mode \<^verbatim>\<open>'w'\<close> and rewritten in place: while the dump is not
  complete the file on disk is incomplete.
\<close>

theorem successful_fetch_rewrites_whole_cache:
  assumes "api_channels E (length (requests w)) cid = Ok chs"
  shows "\<exists>d w'. fetch_channels_for_country E cid cname cd w = (Some True, d, w') \<and>
           channels_file w' = Holds d \<and>
           map_of d cid =
             Some \<lparr>data = Some chs,
                   timestamp = Some (get_utc_timestamp E (send (GetChannelsOfCountry cid) w))\<rparr> \<and>
           (\<forall>k. k \<noteq> cid \<longrightarrow> map_of d k = map_of cd k) \<and>
           committed_keys w' = insert cid (fst ` set cd) \<and>
           countries_file w' = countries_file w \<and>
           writes w' = writes w @ [CHANNELS_FILE] \<and>
           channels_file (fetch_channels_for_country_interrupted E cid cname cd w) = Partial"
proof -
  let ?w1 = "send (GetChannelsOfCountry cid) w"
  let ?d = "AList.update cid
      \<lparr>data = Some chs, timestamp = Some (get_utc_timestamp E ?w1)\<rparr> cd"
  let ?w2 = "dump_channels ?d (open_w CHANNELS_FILE ?w1)"
  have run: "fetch_channels_for_country E cid cname cd w = (Some True, ?d, ?w2)"
    by (rule fetch_channels_success[OF assms])
  have keys: "committed_keys ?w2 = insert cid (fst ` set cd)"
    by (simp add: committed_keys_def load_channels_data_def dump_channels_def dom_update)
  have cut: "channels_file (fetch_channels_for_country_interrupted E cid cname cd w) = Partial"
    using assms by (simp add: fetch_channels_for_country_interrupted_def Let_def)
  have "channels_file ?w2 = Holds ?d \<and>
      map_of ?d cid = Some \<lparr>data = Some chs, timestamp = Some (get_utc_timestamp E ?w1)\<rparr> \<and>
      (\<forall>k. k \<noteq> cid \<longrightarrow> map_of ?d k = map_of cd k) \<and>
      countries_file ?w2 = countries_file w \<and>
      writes ?w2 = writes w @ [CHANNELS_FILE]"
    by (simp add: dump_channels_def send_def update_conv')
  with run keys cut show ?thesis by blast
qed

theorem successful_fetch_rewrites_whole_cache_witness:
  "api_channels (sample_env jan_5 countries_up channels_up)
     (length (requests (world_with_channels [(''B'', entry_B)]))) ''A'' = Ok [channel_news] \<and>
   (\<exists>d w'. fetch_channels_for_country (sample_env jan_5 countries_up channels_up)
              ''A'' ''Austria'' [(''B'', entry_B)] (world_with_channels [(''B'', entry_B)]) =
              (Some True, d, w') \<and>
            channels_file w' = Holds d \<and>
            map_of d ''B'' = Some entry_B \<and>
            committed_keys w' = {''A'', ''B''})"
proof -
  let ?E = "sample_env jan_5 countries_up channels_up"
  let ?cd = "[(''B'', entry_B)]"
  let ?w = "world_with_channels ?cd"
  have a: "api_channels ?E (length (requests ?w)) ''A'' = Ok [channel_news]"
    by (simp add: sample_env_def channels_up_def)
  from successful_fetch_rewrites_whole_cache[OF a, of "''Austria''" ?cd]
  obtain d w' where all:
    "fetch_channels_for_country ?E ''A'' ''Austria'' ?cd ?w = (Some True, d, w') \<and>
     channels_file w' = Holds d \<and>
     map_of d ''A'' =
       Some \<lparr>data = Some [channel_news],
             timestamp = Some (get_utc_timestamp ?E (send (GetChannelsOfCountry ''A'') ?w))\<rparr> \<and>
     (\<forall>k. k \<noteq> ''A'' \<longrightarrow> map_of d k = map_of ?cd k) \<and>
     committed_keys w' = insert ''A'' (fst ` set ?cd) \<and>
     countries_file w' = countries_file ?w \<and>
     writes w' = writes ?w @ [CHANNELS_FILE] \<and>
     channels_file (fetch_channels_for_country_interrupted ?E ''A'' ''Austria'' ?cd ?w) = Partial"
    by (elim exE) (rule that)
  note run = all[THEN conjunct1]
  note held = all[THEN conjunct2, THEN conjunct1]
  note others = all[THEN conjunct2, THEN conjunct2, THEN conjunct2, THEN conjunct1]
  note keys = all[THEN conjunct2, THEN conjunct2, THEN conjunct2, THEN conjunct2, THEN conjunct1]
  have ne: "''B'' \<noteq> ''A''" by simp
  from others[rule_format, OF ne] have "map_of d ''B'' = map_of ?cd ''B''" .
  then have b: "map_of d ''B'' = Some entry_B" by simp
  from keys have k: "committed_keys w' = {''A'', ''B''}" by simp
  from run held b k have "\<exists>d w'. fetch_channels_for_country ?E ''A'' ''Austria'' ?cd ?w =
              (Some True, d, w') \<and>
            channels_file w' = Holds d \<and>
            map_of d ''B'' = Some entry_B \<and>
            committed_keys w' = {''A'', ''B''}"
    by (intro exI conjI)
  with a show ?thesis by (rule conjI)
qed

text \<open>
  Claim C4 as stated fails: the write is not a replacement of the file. With country
  \<open>B\<close> committed, stopping the process while it writes the result for country \<open>A\<close> leaves
  a file from which no key can be read back, \<open>B\<close> included.
\<close>

theorem interrupted_write_loses_committed_keys:
  "committed_keys (world_with_channels [(''B'', entry_B)]) = {''B''} \<and>
   committed_keys
     (fetch_channels_for_country_interrupted (sample_env jan_5 countries_up channels_up)
        ''A'' ''Austria'' [(''B'', entry_B)] (world_with_channels [(''B'', entry_B)])) = {}"
  by (simp add: committed_keys_def load_channels_data_def world_with_channels_def
      fetch_channels_for_country_interrupted_def sample_env_def channels_up_def send_def)

section \<open>The option list\<close>

lemma channels_loop_closed:
  "channels_loop cdn chs s =
     s\<lparr>channel_options := channel_options s @
          map (\<lambda>ch. (cdn @ '' - '' @ display_name_of_channel ch,
                      the (channel_id ch) @ ''|'' @ display_name_of_channel ch))
            (filter has_id chs),
       total_channels := total_channels s + length (filter has_id chs)\<rparr>"
  by (induction chs arbitrary: s) (auto simp: has_id_def split: option.splits)

lemma countries_loop_closed:
  "countries_loop m cd s =
     s\<lparr>channel_options := channel_options s @ expected_options m cd,
       total_channels := total_channels s + length (expected_options m cd),
       stdout := stdout s @ map (\<lambda>item. warning (fst item)) (filter (\<lambda>item. m (fst item) = None) cd)\<rparr>"
proof (induction cd arbitrary: s)
  case Nil
  show ?case by (simp add: expected_options_def)
next
  case (Cons item rest)
  obtain cid e where item: "item = (cid, e)" by (cases item)
  show ?case
  proof (cases "m cid")
    case None
    then show ?thesis
      by (simp add: item Cons.IH expected_options_def options_of_item_def warning_def)
  next
    case (Some c)
    then show ?thesis
      by (simp add: item Cons.IH channels_loop_closed expected_options_def options_of_item_def
          option_of_def)
  qed
qed

lemma create_options_yml_closed:
  assumes "cf = Holds cdoc" "chf = Holds cd" "get_default (data cdoc) [] \<noteq> []" "cd \<noteq> []"
  shows "create_options_yml cf chf =
     Inr (Some \<lparr>channel_options =
                   sort_key sort_label
                     (expected_options (country_map_of (get_default (data cdoc) [])) cd),
                 total_channels =
                   length (expected_options (country_map_of (get_default (data cdoc) [])) cd),
                 stdout = map (\<lambda>item. warning (fst item))
                   (filter (\<lambda>item. country_map_of (get_default (data cdoc) []) (fst item) = None)
                      cd)\<rparr>)"
proof -
  have k: "sort_label = (\<lambda>x. lower (fst x))"
    by (rule ext) (simp add: sort_label_def)
  show ?thesis
    using assms
    by (simp add: create_options_yml_def load_countries_options_def load_channels_def
        countries_loop_closed Let_def k)
qed




lemma country_map_fold_Some:
  "fold (\<lambda>c m. m(country_id c \<mapsto> c)) cs m0 k = Some c \<Longrightarrow>
     c \<in> set cs \<and> country_id c = k \<or> m0 k = Some c"
proof (induction cs arbitrary: m0)
  case Nil
  then show ?case by simp
next
  case (Cons a cs)
  from Cons.prems have "fold (\<lambda>c m. m(country_id c \<mapsto> c)) cs (m0(country_id a \<mapsto> a)) k = Some c"
    by (simp del: fun_upd_apply)
  from Cons.IH[OF this] show ?case by (auto split: if_splits)
qed

lemma country_map_fold_None:
  "fold (\<lambda>c m. m(country_id c \<mapsto> c)) cs m0 k = None \<longleftrightarrow>
     m0 k = None \<and> k \<notin> country_id ` set cs"
proof (induction cs arbitrary: m0)
  case Nil
  show ?case by simp
next
  case (Cons a cs)
  have "fold (\<lambda>c m. m(country_id c \<mapsto> c)) (a # cs) m0 k =
      fold (\<lambda>c m. m(country_id c \<mapsto> c)) cs (m0(country_id a \<mapsto> a)) k"
    by (simp del: fun_upd_apply)
  then have "(fold (\<lambda>c m. m(country_id c \<mapsto> c)) (a # cs) m0 k = None) =
      (fold (\<lambda>c m. m(country_id c \<mapsto> c)) cs (m0(country_id a \<mapsto> a)) k = None)"
    by (simp only:)
  also have "\<dots> = ((m0(country_id a \<mapsto> a)) k = None \<and> k \<notin> country_id ` set cs)"
    by (rule Cons.IH)
  also have "\<dots> = (m0 k = None \<and> k \<notin> country_id ` set (a # cs))"
    by auto
  finally show ?case .
qed

lemma country_map_of_Some:
  "country_map_of cs k = Some c \<Longrightarrow> c \<in> set cs \<and> country_id c = k"
  using country_map_fold_Some[of cs Map.empty k c] by (simp add: country_map_of_def)

lemma country_map_of_None:
  "country_map_of cs k = None \<longleftrightarrow> k \<notin> country_id ` set cs"
  by (simp add: country_map_of_def country_map_fold_None)

lemma expected_options_known:
  "expected_options m (filter (\<lambda>item. m (fst item) \<noteq> None) cd) = expected_options m cd"
  by (induction cd) (auto simp: expected_options_def options_of_item_def)

text \<open>
  Claim C7. When both documents are present and non-empty, \<^verbatim>\<open>create_options_yml\<close> produces
  its option list, and as a multiset that list is exactly one option for every channel
  with an identifier filed under a country id of the countries list (\<open>expected_options\<close>):
  an option is produced if and only if it is
  \<open>(country display name - channel display name, channel id|channel display name)\<close> for
  such a pair, so that a channel without an identifier contributes nothing; the number of
  options is the count the code keeps. The country of an id is an element of the countries
  list with that id.
\<close>

theorem one_option_per_identified_channel:
  assumes "cf = Holds cdoc" "chf = Holds cd" "get_default (data cdoc) [] \<noteq> []" "cd \<noteq> []"
  shows "\<exists>out. create_options_yml cf chf = Inr (Some out) \<and>
           mset (channel_options out) =
             mset (expected_options (country_map_of (get_default (data cdoc) [])) cd) \<and>
           total_channels out = length (channel_options out) \<and>
           (\<forall>x. x \<in> set (channel_options out) \<longleftrightarrow>
              (\<exists>cid e c ch. (cid, e) \<in> set cd \<and>
                 country_map_of (get_default (data cdoc) []) cid = Some c \<and>
                 ch \<in> set (get_default (data e) []) \<and>
                 channel_id ch \<noteq> None \<and> channel_id ch \<noteq> Some '''' \<and>
                 x = (display_name_of_country c @ '' - '' @ display_name_of_channel ch,
                      the (channel_id ch) @ ''|'' @ display_name_of_channel ch))) \<and>
           (\<forall>cid c. country_map_of (get_default (data cdoc) []) cid = Some c \<longrightarrow>
              c \<in> set (get_default (data cdoc) []) \<and> country_id c = cid)"
proof -
  let ?m = "country_map_of (get_default (data cdoc) [])"
  let ?out = "\<lparr>channel_options = sort_key sort_label (expected_options ?m cd),
               total_channels = length (expected_options ?m cd),
               stdout = map (\<lambda>item. warning (fst item))
                          (filter (\<lambda>item. ?m (fst item) = None) cd)\<rparr>"
  have run: "create_options_yml cf chf = Inr (Some ?out)"
    by (rule create_options_yml_closed[OF assms])
  have ms: "mset (channel_options ?out) = mset (expected_options ?m cd)" by simp
  have len: "total_channels ?out = length (channel_options ?out)" by simp
  have mem: "\<forall>x. x \<in> set (channel_options ?out) \<longleftrightarrow>
              (\<exists>cid e c ch. (cid, e) \<in> set cd \<and> ?m cid = Some c \<and>
                 ch \<in> set (get_default (data e) []) \<and>
                 channel_id ch \<noteq> None \<and> channel_id ch \<noteq> Some '''' \<and>
                 x = (display_name_of_country c @ '' - '' @ display_name_of_channel ch,
                      the (channel_id ch) @ ''|'' @ display_name_of_channel ch))"
  proof
    fix x
    have "x \<in> set (expected_options ?m cd) \<longleftrightarrow>
              (\<exists>cid e c ch. (cid, e) \<in> set cd \<and> ?m cid = Some c \<and>
                 ch \<in> set (get_default (data e) []) \<and>
                 channel_id ch \<noteq> None \<and> channel_id ch \<noteq> Some '''' \<and>
                 x = (display_name_of_country c @ '' - '' @ display_name_of_channel ch,
                      the (channel_id ch) @ ''|'' @ display_name_of_channel ch))"
      unfolding expected_options_def options_of_item_def option_of_def has_id_def
      by (auto split: option.splits) force+
    then show "x \<in> set (channel_options ?out) \<longleftrightarrow>
              (\<exists>cid e c ch. (cid, e) \<in> set cd \<and> ?m cid = Some c \<and>
                 ch \<in> set (get_default (data e) []) \<and>
                 channel_id ch \<noteq> None \<and> channel_id ch \<noteq> Some '''' \<and>
                 x = (display_name_of_country c @ '' - '' @ display_name_of_channel ch,
                      the (channel_id ch) @ ''|'' @ display_name_of_channel ch))"
      by simp
  qed
  have known: "\<forall>cid c. ?m cid = Some c \<longrightarrow>
      c \<in> set (get_default (data cdoc) []) \<and> country_id c = cid"
    by (simp add: country_map_of_Some)
  from run ms len mem known show ?thesis by (intro exI[of _ ?out] conjI)
qed

theorem one_option_per_identified_channel_witness:
  "\<exists>out. create_options_yml (countries_doc [country_A, country_B])
            (Holds [(''A'', entry_of [channel_news, channel_without_id]),
                    (''B'', entry_of [channel_sports])]) = Inr (Some out) \<and>
         mset (channel_options out) =
           {#(''Austria - News'', ''c1|News''), (''Belgium (BE) - Sports'', ''c3|Sports'')#} \<and>
         total_channels out = length (channel_options out)"
proof -
  let ?cs = "[country_A, country_B]"
  let ?cdoc = "\<lparr>data = Some ?cs, timestamp = Some ''2024-01-01T00:00:00Z''\<rparr>"
  let ?cd = "[(''A'', entry_of [channel_news, channel_without_id]),
              (''B'', entry_of [channel_sports])]"
  have h1: "countries_doc ?cs = Holds ?cdoc" by (simp add: countries_doc_def)
  have h2: "Holds ?cd = Holds ?cd" by (rule refl)
  have h3: "get_default (data ?cdoc) [] \<noteq> []" by (simp add: get_default_def)
  have h4: "?cd \<noteq> []" by simp
  have ex: "expected_options (country_map_of (get_default (data ?cdoc) [])) ?cd =
      [(''Austria - News'', ''c1|News''), (''Belgium (BE) - Sports'', ''c3|Sports'')]"
    by (simp add: expected_options_def options_of_item_def option_of_def has_id_def
        country_map_of_def get_default_def entry_of_def country_A_def country_B_def
        channel_news_def channel_without_id_def channel_sports_def
        display_name_of_country_def display_name_of_channel_def)
  from one_option_per_identified_channel[OF h1 h2 h3 h4]
  show ?thesis
  proof (elim exE conjE)
    fix out
    assume run: "create_options_yml (countries_doc ?cs) (Holds ?cd) = Inr (Some out)"
      and ms: "mset (channel_options out) =
          mset (expected_options (country_map_of (get_default (data ?cdoc) [])) ?cd)"
      and len: "total_channels out = length (channel_options out)"
    from ms have ms': "mset (channel_options out) =
        {#(''Austria - News'', ''c1|News''), (''Belgium (BE) - Sports'', ''c3|Sports'')#}"
      by (simp only: ex) simp
    from run ms' len show ?thesis by (intro exI conjI)
  qed
qed

text \<open>
  Claim C8. When both documents are present and non-empty, the transformation completes
  with an option list. Every item of the keyed cache whose country id is not the id of a
  country in the countries list gets its warning line, one line per such item in their
  order, and contributes no option: the option list is the one computed from the items
  with known ids alone.
\<close>

theorem unknown_country_skipped_with_warning:
  assumes "cf = Holds cdoc" "chf = Holds cd" "get_default (data cdoc) [] \<noteq> []" "cd \<noteq> []"
  shows "\<exists>out. create_options_yml cf chf = Inr (Some out) \<and>
           stdout out =
             map (\<lambda>item. warning (fst item))
               (filter (\<lambda>item. fst item \<notin> country_id ` set (get_default (data cdoc) [])) cd) \<and>
           (\<forall>item \<in> set cd. fst item \<notin> country_id ` set (get_default (data cdoc) []) \<longrightarrow>
              warning (fst item) \<in> set (stdout out) \<and>
              options_of_item (country_map_of (get_default (data cdoc) [])) item = []) \<and>
           channel_options out =
             sort_key sort_label
               (expected_options (country_map_of (get_default (data cdoc) []))
                  (filter (\<lambda>item. fst item \<in> country_id ` set (get_default (data cdoc) [])) cd))"
proof -
  let ?cs = "get_default (data cdoc) []"
  let ?m = "country_map_of ?cs"
  let ?out = "\<lparr>channel_options = sort_key sort_label (expected_options ?m cd),
               total_channels = length (expected_options ?m cd),
               stdout = map (\<lambda>item. warning (fst item))
                          (filter (\<lambda>item. ?m (fst item) = None) cd)\<rparr>"
  have run: "create_options_yml cf chf = Inr (Some ?out)"
    by (rule create_options_yml_closed[OF assms])
  have unknown: "(\<lambda>item. ?m (fst item) = None) = (\<lambda>item. fst item \<notin> country_id ` set ?cs)"
    by (rule ext) (simp only: country_map_of_None)
  have known: "(\<lambda>item. ?m (fst item) \<noteq> None) = (\<lambda>item. fst item \<in> country_id ` set ?cs)"
    by (rule ext) (simp only: country_map_of_None not_not)
  have a: "stdout ?out =
      map (\<lambda>item. warning (fst item)) (filter (\<lambda>item. fst item \<notin> country_id ` set ?cs) cd)"
    by (simp add: unknown)
  have b: "\<forall>item \<in> set cd. fst item \<notin> country_id ` set ?cs \<longrightarrow>
      warning (fst item) \<in> set (stdout ?out) \<and> options_of_item ?m item = []"
  proof (intro ballI impI)
    fix item assume i: "item \<in> set cd" and u: "fst item \<notin> country_id ` set ?cs"
    from u have n: "?m (fst item) = None" by (simp add: country_map_of_None)
    from i n have "warning (fst item) \<in> set (stdout ?out)" by auto
    moreover from n have "options_of_item ?m item = []" by (simp add: options_of_item_def)
    ultimately show "warning (fst item) \<in> set (stdout ?out) \<and> options_of_item ?m item = []"
      by (rule conjI)
  qed
  have c: "channel_options ?out =
      sort_key sort_label
        (expected_options ?m (filter (\<lambda>item. fst item \<in> country_id ` set ?cs) cd))"
  proof -
    have "expected_options ?m (filter (\<lambda>item. fst item \<in> country_id ` set ?cs) cd) =
        expected_options ?m cd"
      unfolding known[symmetric] by (rule expected_options_known)
    then show ?thesis by simp
  qed
  from run a b c show ?thesis by (intro exI[of _ ?out] conjI)
qed

theorem unknown_country_skipped_with_warning_witness:
  "\<exists>out. create_options_yml (countries_doc [country_B])
            (Holds [(''D'', entry_of [channel_news]), (''B'', entry_of [channel_sports])]) =
            Inr (Some out) \<and>
         stdout out = [''Warning: Country ID D not found in countries data''] \<and>
         channel_options out = [(''Belgium (BE) - Sports'', ''c3|Sports'')]"
proof -
  let ?cs = "[country_B]"
  let ?cdoc = "\<lparr>data = Some ?cs, timestamp = Some ''2024-01-01T00:00:00Z''\<rparr>"
  let ?cd = "[(''D'', entry_of [channel_news]), (''B'', entry_of [channel_sports])]"
  have h1: "countries_doc ?cs = Holds ?cdoc" by (simp add: countries_doc_def)
  have h2: "Holds ?cd = Holds ?cd" by (rule refl)
  have h3: "get_default (data ?cdoc) [] \<noteq> []" by (simp add: get_default_def)
  have h4: "?cd \<noteq> []" by simp
  have w: "map (\<lambda>item. warning (fst item))
      (filter (\<lambda>item. fst item \<notin> country_id ` set (get_default (data ?cdoc) [])) ?cd) =
      [''Warning: Country ID D not found in countries data'']"
    by (simp add: get_default_def country_B_def warning_def)
  have o: "sort_key sort_label
      (expected_options (country_map_of (get_default (data ?cdoc) []))
         (filter (\<lambda>item. fst item \<in> country_id ` set (get_default (data ?cdoc) [])) ?cd)) =
      [(''Belgium (BE) - Sports'', ''c3|Sports'')]"
    by (simp add: expected_options_def options_of_item_def option_of_def has_id_def
        country_map_of_def get_default_def entry_of_def country_B_def
        channel_sports_def display_name_of_country_def display_name_of_channel_def)
  from unknown_country_skipped_with_warning[OF h1 h2 h3 h4]
  show ?thesis
  proof (elim exE conjE)
    fix out
    assume run: "create_options_yml (countries_doc ?cs) (Holds ?cd) = Inr (Some out)"
      and out: "stdout out = map (\<lambda>item. warning (fst item))
          (filter (\<lambda>item. fst item \<notin> country_id ` set (get_default (data ?cdoc) [])) ?cd)"
      and opts: "channel_options out = sort_key sort_label
          (expected_options (country_map_of (get_default (data ?cdoc) []))
             (filter (\<lambda>item. fst item \<in> country_id ` set (get_default (data ?cdoc) [])) ?cd))"
    from out have out': "stdout out = [''Warning: Country ID D not found in countries data'']"
      by (simp only: w)
    from opts have opts': "channel_options out = [(''Belgium (BE) - Sports'', ''c3|Sports'')]"
      by (simp only: o)
    from run out' opts' show ?thesis by (intro exI conjI)
  qed
qed




end
